theory Spec2Isabelle
  imports Main
begin

section \<open>Memory model\<close>

text \<open>
  The deque of \<^verbatim>\<open>src/deque/deque.h\<close> is a two-level structure: an outer array of chunk
  pointers (the map) and fixed-size chunks of elements.

  \<^item> An element pointer \<^verbatim>\<open>T*\<close> is an integer address; \<open>0\<close> is \<^verbatim>\<open>nullptr\<close>.
  \<^item> A map pointer \<^verbatim>\<open>T**\<close> is an integer index into the pointer array the deque currently
    owns; index \<open>0\<close> is the leading sentinel, so \<^verbatim>\<open>data\<close> is index \<open>1\<close>.
  \<^item> The element memory is a function from addresses to optional values: \<open>None\<close> is raw
    (unconstructed) storage.
  \<^item> The allocator hands out fresh chunk addresses and can run dry: \<open>budget = Some n\<close>
    lets \<open>n\<close> more allocations succeed and then throws, \<open>budget = None\<close> never throws.

  \<^verbatim>\<open>CHUNK_SIZE<T>\<close> and \<^verbatim>\<open>CHUNK_PADDING\<close> are declared in \<^verbatim>\<open>deque_constants.h\<close>; every
  function below takes them as the parameters \<open>cs\<close> and \<open>pad\<close>.
\<close>

datatype ('v, 's) outcome = Returns 'v 's | Throws 's | Undefined

record iterator =
  outer_pointer :: int
  inner_pointer :: int
  chunk_begin :: int
  chunk_end :: int

record 'a deque =
  num_chunks :: nat
  begin_chunk :: int
  end_chunk :: int
  data :: int
  begin_iterator :: iterator
  end_iterator :: iterator
  outer :: "int list"
  cells :: "int \<Rightarrow> 'a option"
  live_chunks :: "int set"
  next_addr :: int
  budget :: "nat option"

definition slot :: "int list \<Rightarrow> int \<Rightarrow> int option" where
  "slot M p = (if 0 \<le> p \<and> p < int (length M) then Some (M ! nat p) else None)"

definition store_slot :: "int list \<Rightarrow> int \<Rightarrow> int \<Rightarrow> int list option" where
  "store_slot M p v = (if 0 \<le> p \<and> p < int (length M) then Some (M[nat p := v]) else None)"

definition spend :: "nat option \<Rightarrow> nat option" where
  "spend b = (case b of None \<Rightarrow> None | Some n \<Rightarrow> Some (n - 1))"

text \<open>\<^verbatim>\<open>alloc_traits::allocate(allocator, CHUNK_SIZE<T>)\<close>: \<open>None\<close> is the throw.\<close>

definition allocate_chunk :: "nat \<Rightarrow> 'a deque \<Rightarrow> (int \<times> 'a deque) option" where
  "allocate_chunk cs d =
     (if budget d = Some 0 then None
      else Some (next_addr d,
                 d\<lparr>next_addr := next_addr d + int cs,
                   live_chunks := insert (next_addr d) (live_chunks d),
                   budget := spend (budget d)\<rparr>))"

text \<open>\<^verbatim>\<open>alloc_traits::deallocate(allocator, p, CHUNK_SIZE<T>)\<close>.\<close>

definition deallocate_chunk :: "int \<Rightarrow> 'a deque \<Rightarrow> 'a deque" where
  "deallocate_chunk p d = d\<lparr>live_chunks := live_chunks d - {p}\<rparr>"

text \<open>
  \<^verbatim>\<open>pointer_alloc_traits::allocate(pointer_allocator, n)\<close> followed by the
  \<^verbatim>\<open>std::fill\<close> of the new array with \<^verbatim>\<open>nullptr\<close>: the new array, or \<open>None\<close> for the throw.
\<close>

definition allocate_map :: "nat \<Rightarrow> 'a deque \<Rightarrow> (int list \<times> 'a deque) option" where
  "allocate_map n d =
     (if budget d = Some 0 then None
      else Some (replicate n 0, d\<lparr>budget := spend (budget d)\<rparr>))"

definition construct :: "int \<Rightarrow> 'a \<Rightarrow> 'a deque \<Rightarrow> 'a deque" where
  "construct p v d = d\<lparr>cells := (cells d)(p := Some v)\<rparr>"

definition destroy :: "int \<Rightarrow> 'a deque \<Rightarrow> 'a deque" where
  "destroy p d = d\<lparr>cells := (cells d)(p := None)\<rparr>"

section \<open>Iterator\<close>

text \<open>
  Modelled from the spec: \<^verbatim>\<open>deque_iterator.h\<close> is not among the sources. Section 4.1
  describes a four-field cursor; a chunk step refreshes \<open>chunk_begin\<close> and \<open>chunk_end\<close>
  from the map, random-access arithmetic is a divmod by the chunk size with floor
  semantics, and the difference of two iterators is
  \<open>(a.outer - b.outer) * CHUNK_SIZE + (a.inner - a.chunk_begin) - (b.inner - b.chunk_begin)\<close>.
  A read of the map outside the array is \<open>None\<close>.
\<close>

definition mk_iterator :: "nat \<Rightarrow> int list \<Rightarrow> int \<Rightarrow> int \<Rightarrow> iterator option" where
  "mk_iterator cs M p inner =
     (case slot M p of None \<Rightarrow> None
      | Some c \<Rightarrow> Some \<lparr>outer_pointer = p, inner_pointer = inner,
                         chunk_begin = c, chunk_end = c + int cs\<rparr>)"

definition to_next_chunk :: "nat \<Rightarrow> int list \<Rightarrow> iterator \<Rightarrow> iterator option" where
  "to_next_chunk cs M it =
     (case slot M (outer_pointer it + 1) of None \<Rightarrow> None
      | Some c \<Rightarrow> Some \<lparr>outer_pointer = outer_pointer it + 1, inner_pointer = c,
                         chunk_begin = c, chunk_end = c + int cs\<rparr>)"

definition to_prev_chunk :: "nat \<Rightarrow> int list \<Rightarrow> iterator \<Rightarrow> iterator option" where
  "to_prev_chunk cs M it =
     (case slot M (outer_pointer it - 1) of None \<Rightarrow> None
      | Some c \<Rightarrow> Some \<lparr>outer_pointer = outer_pointer it - 1, inner_pointer = c + int cs,
                         chunk_begin = c, chunk_end = c + int cs\<rparr>)"

definition it_incr :: "nat \<Rightarrow> int list \<Rightarrow> iterator \<Rightarrow> iterator option" where
  "it_incr cs M it =
     (if inner_pointer it + 1 = chunk_end it then to_next_chunk cs M it
      else Some (it\<lparr>inner_pointer := inner_pointer it + 1\<rparr>))"

definition it_decr :: "nat \<Rightarrow> int list \<Rightarrow> iterator \<Rightarrow> iterator option" where
  "it_decr cs M it =
     (if inner_pointer it = chunk_begin it
      then (case to_prev_chunk cs M it of None \<Rightarrow> None
            | Some j \<Rightarrow> Some (j\<lparr>inner_pointer := inner_pointer j - 1\<rparr>))
      else Some (it\<lparr>inner_pointer := inner_pointer it - 1\<rparr>))"

definition it_plus :: "nat \<Rightarrow> int list \<Rightarrow> iterator \<Rightarrow> int \<Rightarrow> iterator option" where
  "it_plus cs M it n =
     (let off = n + (inner_pointer it - chunk_begin it);
          p = outer_pointer it + off div int cs
      in case slot M p of None \<Rightarrow> None
         | Some c \<Rightarrow> Some \<lparr>outer_pointer = p, inner_pointer = c + off mod int cs,
                            chunk_begin = c, chunk_end = c + int cs\<rparr>)"

definition it_diff :: "nat \<Rightarrow> iterator \<Rightarrow> iterator \<Rightarrow> int" where
  "it_diff cs a b =
     (outer_pointer a - outer_pointer b) * int cs
       + (inner_pointer a - chunk_begin a) - (inner_pointer b - chunk_begin b)"

section \<open>Construction\<close>

text \<open>
  \<^verbatim>\<open>fill_helper\<close> (deque.h, lines 87 to 122). The filler is the value constructed into
  each of the \<open>n\<close> initial slots. The default constructor calls it with \<open>n = 0\<close>.
\<close>

fun construct_n :: "int \<Rightarrow> nat \<Rightarrow> 'a \<Rightarrow> (int \<Rightarrow> 'a option) \<Rightarrow> (int \<Rightarrow> 'a option)" where
  "construct_n p 0 v h = h"
| "construct_n p (Suc k) v h = construct_n (p + 1) k v (h(p := Some v))"

fun release_chunks :: "int list \<Rightarrow> 'a deque \<Rightarrow> 'a deque" where
  "release_chunks [] d = d"
| "release_chunks (p # ps) d = release_chunks ps (deallocate_chunk p d)"

function fill_loop :: "nat \<Rightarrow> 'a \<Rightarrow> nat \<Rightarrow> 'a deque \<Rightarrow> (unit, 'a deque) outcome" where
  "fill_loop cs v remain d =
     (if cs = 0 then Undefined
      else if remain = 0 then Returns () d
      else (case allocate_chunk cs d of
              None \<Rightarrow>
                Throws (release_chunks
                          (map (\<lambda>i. outer d ! i) [nat (begin_chunk d) ..< nat (end_chunk d)]) d)
            | Some (p, d1) \<Rightarrow>
                (case store_slot (outer d1) (end_chunk d1) p of
                   None \<Rightarrow> Undefined
                 | Some M \<Rightarrow>
                     fill_loop cs v (remain - min cs remain)
                       (d1\<lparr>outer := M,
                           cells := construct_n p (min cs (remain - 1)) v (cells d1),
                           end_chunk := end_chunk d1 + 1\<rparr>))))"
  by pat_completeness auto
termination
  by (relation "measure (\<lambda>(cs, v, remain, d). remain)") auto

declare fill_loop.simps [simp del]

definition empty_store :: "nat option \<Rightarrow> 'a deque" where
  "empty_store b =
     \<lparr>num_chunks = 0, begin_chunk = 0, end_chunk = 0, data = 0,
      begin_iterator = \<lparr>outer_pointer = 0, inner_pointer = 0, chunk_begin = 0, chunk_end = 0\<rparr>,
      end_iterator = \<lparr>outer_pointer = 0, inner_pointer = 0, chunk_begin = 0, chunk_end = 0\<rparr>,
      outer = [], cells = (\<lambda>_. None), live_chunks = {}, next_addr = 1, budget = b\<rparr>"

definition fill_helper :: "nat \<Rightarrow> nat \<Rightarrow> nat \<Rightarrow> 'a \<Rightarrow> 'a deque \<Rightarrow> (unit, 'a deque) outcome" where
  "fill_helper cs pad n v d0 =
     (if cs = 0 then Undefined
      else
        let nc = pad + (n + cs) div cs in
        case allocate_map (nc + 2) d0 of
          None \<Rightarrow> Throws d0
        | Some (M, d1) \<Rightarrow>
            let d2 = d1\<lparr>num_chunks := nc, outer := M, data := 1,
                        begin_chunk := 1 + int (pad div 2),
                        end_chunk := 1 + int (pad div 2)\<rparr>
            in case fill_loop cs v (n + 1) d2 of
                 Undefined \<Rightarrow> Undefined
               | Throws d3 \<Rightarrow> Throws d3
               | Returns _ d3 \<Rightarrow>
                   (case slot (outer d3) (begin_chunk d3) of
                      None \<Rightarrow> Undefined
                    | Some c \<Rightarrow>
                        (case mk_iterator cs (outer d3) (begin_chunk d3) c of
                           None \<Rightarrow> Undefined
                         | Some b \<Rightarrow>
                             (case it_plus cs (outer d3) b (int n) of
                                None \<Rightarrow> Undefined
                              | Some e \<Rightarrow>
                                  Returns () (d3\<lparr>begin_iterator := b, end_iterator := e\<rparr>)))))"

text \<open>\<^verbatim>\<open>deque(const allocator_type&)\<close> and \<^verbatim>\<open>deque(size_type n, const_reference value, ...)\<close>.\<close>

definition deque_default :: "nat \<Rightarrow> nat \<Rightarrow> 'a \<Rightarrow> nat option \<Rightarrow> (unit, 'a deque) outcome" where
  "deque_default cs pad dummy b = fill_helper cs pad 0 dummy (empty_store b)"


section \<open>Observing results\<close>

definition returned :: "('v, 's) outcome \<Rightarrow> 's option" where
  "returned r = (case r of Returns _ s \<Rightarrow> Some s | _ \<Rightarrow> None)"



section \<open>Pointer-array algorithms\<close>

text \<open>
  \<^verbatim>\<open>std::swap_ranges\<close>, \<^verbatim>\<open>std::copy\<close> and \<^verbatim>\<open>std::copy_backward\<close> on map pointers. Each
  returns the updated destination array and the iterator the standard algorithm returns.
  An access outside an array, or a range whose end lies before its start, is undefined
  behaviour: \<open>None\<close>.
\<close>

function swap_ranges :: "int list \<Rightarrow> int \<Rightarrow> int \<Rightarrow> int \<Rightarrow> (int list \<times> int) option" where
  "swap_ranges M f l t =
     (if f = l then Some (M, t)
      else if l < f then None
      else (case (slot M f, slot M t) of
              (Some a, Some b) \<Rightarrow> swap_ranges (M[nat f := b, nat t := a]) (f + 1) l (t + 1)
            | _ \<Rightarrow> None))"
  by pat_completeness auto
termination
  by (relation "measure (\<lambda>(M, f, l, t). nat (l - f))") auto

declare swap_ranges.simps [simp del]

text \<open>
  \<^verbatim>\<open>std::swap_ranges\<close> over \<^verbatim>\<open>std::reverse_iterator<T**>\<close>. The arguments and the result
  are the \<^verbatim>\<open>base()\<close> pointers; a reverse iterator with base \<open>p\<close> designates slot \<open>p - 1\<close>.
\<close>

function swap_ranges_rev :: "int list \<Rightarrow> int \<Rightarrow> int \<Rightarrow> int \<Rightarrow> (int list \<times> int) option" where
  "swap_ranges_rev M f l t =
     (if f = l then Some (M, t)
      else if f < l then None
      else (case (slot M (f - 1), slot M (t - 1)) of
              (Some a, Some b) \<Rightarrow>
                swap_ranges_rev (M[nat (f - 1) := b, nat (t - 1) := a]) (f - 1) l (t - 1)
            | _ \<Rightarrow> None))"
  by pat_completeness auto
termination
  by (relation "measure (\<lambda>(M, f, l, t). nat (f - l))") auto

declare swap_ranges_rev.simps [simp del]

function copy_range :: "int list \<Rightarrow> int \<Rightarrow> int \<Rightarrow> int list \<Rightarrow> int \<Rightarrow> (int list \<times> int) option" where
  "copy_range M f l N t =
     (if f = l then Some (N, t)
      else if l < f then None
      else (case (slot M f, slot N t) of
              (Some a, Some _) \<Rightarrow> copy_range M (f + 1) l (N[nat t := a]) (t + 1)
            | _ \<Rightarrow> None))"
  by pat_completeness auto
termination
  by (relation "measure (\<lambda>(M, f, l, N, t). nat (l - f))") auto

declare copy_range.simps [simp del]

function copy_backward :: "int list \<Rightarrow> int \<Rightarrow> int \<Rightarrow> int list \<Rightarrow> int \<Rightarrow> (int list \<times> int) option" where
  "copy_backward M f l N t =
     (if f = l then Some (N, t)
      else if l < f then None
      else (case (slot M (l - 1), slot N (t - 1)) of
              (Some a, Some _) \<Rightarrow> copy_backward M f (l - 1) (N[nat (t - 1) := a]) (t - 1)
            | _ \<Rightarrow> None))"
  by pat_completeness auto
termination
  by (relation "measure (\<lambda>(M, f, l, N, t). nat (l - f))") auto

declare copy_backward.simps [simp del]

text \<open>C++ integer division truncates towards zero.\<close>

definition cdiv :: "int \<Rightarrow> int \<Rightarrow> int" where
  "cdiv a b = (if (a < 0) = (b < 0) then \<bar>a\<bar> div \<bar>b\<bar> else - (\<bar>a\<bar> div \<bar>b\<bar>))"

section \<open>Growth at the right end\<close>

text \<open>
  The loop \<^verbatim>\<open>while (p < new_end_chunk) { *p = allocate(...); ++p; }\<close> of
  \<^verbatim>\<open>reallocate_end\<close> (lines 752 to 763), filling the new array \<open>N\<close>. On a throw the
  chunks allocated by this loop are released again; \<open>acc\<close> collects them.
\<close>

function alloc_fill :: "nat \<Rightarrow> int list \<Rightarrow> int \<Rightarrow> int \<Rightarrow> int list \<Rightarrow> 'a deque
                          \<Rightarrow> (int list, 'a deque) outcome" where
  "alloc_fill cs N p stop acc d =
     (if stop \<le> p then Returns N d
      else (case allocate_chunk cs d of
              None \<Rightarrow> Throws (release_chunks acc d)
            | Some (c, d1) \<Rightarrow>
                (case store_slot N p c of
                   None \<Rightarrow> Undefined
                 | Some N1 \<Rightarrow> alloc_fill cs N1 (p + 1) stop (acc @ [c]) d1)))"
  by pat_completeness auto
termination
  by (relation "measure (\<lambda>(cs, N, p, stop, acc, d). nat (stop - p))") auto

declare alloc_fill.simps [simp del]

text \<open>
  The two branches of \<^verbatim>\<open>reallocate_end\<close> that complete the new array \<open>N1\<close> (lines 745
  to 767): either enough spare chunks lie before the live ones, or the spare ones are
  copied and the rest is allocated.
\<close>

definition realloc_end_fill :: "nat \<Rightarrow> int \<Rightarrow> int list \<Rightarrow> int \<Rightarrow> int \<Rightarrow> int \<Rightarrow> 'a deque
                                \<Rightarrow> (int list, 'a deque) outcome" where
  "realloc_end_fill cs bic N1 missing_start new_begin_chunk new_end_chunk d0 =
     (let needed = new_end_chunk - missing_start;
          num_free_chunks = bic - begin_chunk d0
      in
      if needed \<le> num_free_chunks then
        (let half = cdiv (num_free_chunks - needed) 2;
             remain = bic - needed - half
         in case copy_range (outer d0) remain bic N1 missing_start of
              None \<Rightarrow> Undefined
            | Some (N2, ec) \<Rightarrow>
                (case copy_backward (outer d0) (begin_chunk d0) remain N2 new_begin_chunk of
                   None \<Rightarrow> Undefined
                 | Some (N3, bc) \<Rightarrow>
                     Returns N3 (d0\<lparr>end_chunk := ec, begin_chunk := bc\<rparr>)))
      else
        (case copy_range (outer d0) (begin_chunk d0) bic N1 missing_start of
           None \<Rightarrow> Undefined
         | Some (N2, missing_start2) \<Rightarrow>
             (case alloc_fill cs N2 missing_start2 new_end_chunk [] d0 of
                Undefined \<Rightarrow> Undefined
              | Throws d1 \<Rightarrow> Throws d1
              | Returns N3 d1 \<Rightarrow>
                  Returns N3 (d1\<lparr>begin_chunk := new_begin_chunk,
                                 end_chunk := new_end_chunk\<rparr>))))"

text \<open>
  \<^verbatim>\<open>reallocate_end\<close> (lines 717 to 777). A negative \<open>active_chunks\<close> would wrap around
  in \<^verbatim>\<open>size_type\<close> and is modelled as undefined behaviour.
\<close>

definition reallocate_end :: "nat \<Rightarrow> nat \<Rightarrow> int \<Rightarrow> int \<Rightarrow> 'a deque \<Rightarrow> (unit, 'a deque) outcome" where
  "reallocate_end cs k bic eic d =
     (let num_elements = it_diff cs (end_iterator d) (begin_iterator d);
          active = eic - bic + int k
      in if active < 0 then Undefined
      else
      let new_num_chunks = nat active * 3 in
      case allocate_map (new_num_chunks + 2) d of
        None \<Rightarrow> Throws d
      | Some (N0, d0) \<Rightarrow>
          let new_data = 1;
              new_begin_chunk = new_data + active;
              new_end_chunk = new_begin_chunk + active
          in
          case copy_range (outer d0) bic (end_chunk d0) N0 new_begin_chunk of
            None \<Rightarrow> Undefined
          | Some (N1, missing_start) \<Rightarrow>
              (case realloc_end_fill cs bic N1 missing_start new_begin_chunk new_end_chunk d0 of
                 Undefined \<Rightarrow> Undefined
               | Throws d1 \<Rightarrow> Throws d1
               | Returns N d1 \<Rightarrow>
                   (let b = (begin_iterator d1)\<lparr>outer_pointer := new_begin_chunk\<rparr>
                    in case it_plus cs N b num_elements of
                         None \<Rightarrow> Undefined
                       | Some e \<Rightarrow>
                           Returns () (d1\<lparr>num_chunks := new_num_chunks,
                                          begin_iterator := b, end_iterator := e,
                                          outer := N, data := new_data\<rparr>))))"

text \<open>\<^verbatim>\<open>center\<close> (lines 779 to 792).\<close>

definition center :: "int \<Rightarrow> int \<Rightarrow> 'a deque \<Rightarrow> 'a deque option" where
  "center left right d =
     (let donation = cdiv (right - left) 2 in
      if 0 \<le> donation then
        (case swap_ranges (outer d) (end_chunk d - donation) (end_chunk d)
                (begin_chunk d - donation) of
           None \<Rightarrow> None
         | Some (M, _) \<Rightarrow>
             Some (d\<lparr>begin_chunk := begin_chunk d - donation, outer := M,
                     end_chunk := end_chunk d - donation\<rparr>))
      else
        (case swap_ranges (outer d) (begin_chunk d) (begin_chunk d + (- donation))
                (end_chunk d) of
           None \<Rightarrow> None
         | Some (M, ec) \<Rightarrow>
             Some (d\<lparr>end_chunk := ec, outer := M,
                     begin_chunk := begin_chunk d + (- donation)\<rparr>)))"

text \<open>
  The loop \<^verbatim>\<open>while (end_chunk < new_end_chunk) { *end_chunk = allocate(...); ++end_chunk; }\<close>
  of \<^verbatim>\<open>rearrange_end\<close> (lines 827 to 830). A throw leaves the chunks installed so far.
\<close>

function grow_end_chunk :: "nat \<Rightarrow> int \<Rightarrow> 'a deque \<Rightarrow> (unit, 'a deque) outcome" where
  "grow_end_chunk cs stop d =
     (if stop \<le> end_chunk d then Returns () d
      else (case allocate_chunk cs d of
              None \<Rightarrow> Throws d
            | Some (c, d1) \<Rightarrow>
                (case store_slot (outer d1) (end_chunk d1) c of
                   None \<Rightarrow> Undefined
                 | Some M \<Rightarrow>
                     grow_end_chunk cs stop (d1\<lparr>outer := M, end_chunk := end_chunk d1 + 1\<rparr>))))"
  by pat_completeness auto
termination
  by (relation "measure (\<lambda>(cs, stop, d). nat (stop - end_chunk d))")
     (auto simp: allocate_chunk_def split: if_splits)

declare grow_end_chunk.simps [simp del]

text \<open>
  The block of \<^verbatim>\<open>rearrange_end\<close> guarded by \<^verbatim>\<open>begin_chunk > new_begin_chunk\<close>
  (lines 801 to 835): the spare chunks are moved next to the live ones and missing ones
  are allocated. The value returned is the flag \<^verbatim>\<open>balanced\<close>.
\<close>

definition coalesce_end :: "nat \<Rightarrow> int \<Rightarrow> int \<Rightarrow> int \<Rightarrow> int \<Rightarrow> int \<Rightarrow> 'a deque
                            \<Rightarrow> (bool, 'a deque) outcome" where
  "coalesce_end cs bic eic new_begin_chunk new_end_iterator_chunk active d1 =
     (case
        (if begin_chunk d1 \<le> new_end_iterator_chunk
         then Some (outer d1, bic)
         else swap_ranges (outer d1) (begin_chunk d1) bic new_end_iterator_chunk)
      of None \<Rightarrow> Undefined
      | Some (M2, fill_pos) \<Rightarrow>
          let src_begin = eic - (if begin_chunk d1 \<le> new_end_iterator_chunk
                                 then new_end_iterator_chunk - begin_chunk d1
                                 else 0)
          in
          (case swap_ranges M2 src_begin (end_chunk d1) fill_pos of
             None \<Rightarrow> Undefined
           | Some (M3, ec) \<Rightarrow>
               let d2 = d1\<lparr>outer := M3, end_chunk := ec, begin_chunk := new_begin_chunk\<rparr>;
                   new_end_chunk = new_begin_chunk + active;
                   balanced = (end_chunk d2 \<le> new_end_chunk + 1)
               in
               (case grow_end_chunk cs new_end_chunk d2 of
                  Undefined \<Rightarrow> Undefined
                | Throws d3 \<Rightarrow> Throws d3
                | Returns _ d3 \<Rightarrow> Returns balanced d3)))"

text \<open>
  \<^verbatim>\<open>rearrange_end\<close> (lines 794 to 846). The counts are \<^verbatim>\<open>size_type\<close> in the source; a
  negative \<open>active_chunks\<close>, or one above \<open>num_chunks\<close>, would wrap around and is
  modelled as undefined behaviour.
\<close>

definition rearrange_end :: "nat \<Rightarrow> nat \<Rightarrow> int \<Rightarrow> int \<Rightarrow> 'a deque \<Rightarrow> (unit, 'a deque) outcome" where
  "rearrange_end cs k bic eic d =
     (let num_elements = it_diff cs (end_iterator d) (begin_iterator d);
          active = eic - bic + int k;
          new_begin_chunk = data d + (int (num_chunks d) - active) div 2
      in if active < 0 \<or> int (num_chunks d) < active then Undefined
      else
      case swap_ranges (outer d) bic eic new_begin_chunk of
        None \<Rightarrow> Undefined
      | Some (M1, new_end_iterator_chunk) \<Rightarrow>
          let b = (begin_iterator d)\<lparr>outer_pointer := new_begin_chunk\<rparr> in
          case it_plus cs M1 b num_elements of
            None \<Rightarrow> Undefined
          | Some e \<Rightarrow>
              let d1 = d\<lparr>outer := M1, begin_iterator := b, end_iterator := e\<rparr> in
              (case
                 (if new_begin_chunk < begin_chunk d1
                  then coalesce_end cs bic eic new_begin_chunk new_end_iterator_chunk active d1
                  else Returns False d1)
               of
                 Undefined \<Rightarrow> Undefined
               | Throws d3 \<Rightarrow> Throws d3
               | Returns balanced d3 \<Rightarrow>
                   if balanced then Returns () d3
                   else
                     (let left = new_begin_chunk - begin_chunk d3;
                          right = end_chunk d3 - new_end_iterator_chunk - int k
                      in case center left right d3 of
                           None \<Rightarrow> Undefined
                         | Some d4 \<Rightarrow> Returns () d4)))"

text \<open>\<^verbatim>\<open>make_room_end\<close> (lines 856 to 875).\<close>

definition end_iterator_chunk :: "'a deque \<Rightarrow> int" where
  "end_iterator_chunk d =
     (if inner_pointer (end_iterator d) \<noteq> 0 then outer_pointer (end_iterator d) + 1
      else outer_pointer (end_iterator d))"


definition make_room_end :: "nat \<Rightarrow> nat \<Rightarrow> 'a deque \<Rightarrow> (unit, 'a deque) outcome" where
  "make_room_end cs k d =
     (let begin_iterator_chunk = outer_pointer (begin_iterator d);
          eic = end_iterator_chunk d;
          active = eic - begin_iterator_chunk + int k
      in if active < 0 then Undefined
         else if nat active \<le> num_chunks d div 3
         then rearrange_end cs k begin_iterator_chunk eic d
         else reallocate_end cs k begin_iterator_chunk eic d)"

section \<open>Push and pop at the right end\<close>

text \<open>\<^verbatim>\<open>handle_chunk_end\<close> (lines 883 to 902), with its \<^verbatim>\<open>catch (...)\<close> block.\<close>

definition handle_chunk_end :: "nat \<Rightarrow> 'a deque \<Rightarrow> (unit, 'a deque) outcome" where
  "handle_chunk_end cs d =
     (case to_next_chunk cs (outer d) (end_iterator d) of
        None \<Rightarrow> Undefined
      | Some e \<Rightarrow>
          let d1 = d\<lparr>end_iterator := e\<rparr> in
          (case
             (if outer_pointer e = data d1 + int (num_chunks d1) then make_room_end cs 1 d1
              else if inner_pointer e = 0 then
                (case allocate_chunk cs d1 of
                   None \<Rightarrow> Throws d1
                 | Some (memory, d2) \<Rightarrow>
                     (case store_slot (outer d2) (outer_pointer e) memory of
                        None \<Rightarrow> Undefined
                      | Some M \<Rightarrow>
                          Returns ()
                            (d2\<lparr>end_chunk := end_chunk d2 + 1, outer := M,
                                end_iterator := e\<lparr>inner_pointer := memory,
                                                   chunk_begin := memory,
                                                   chunk_end := memory + int cs\<rparr>\<rparr>)))
              else Returns () d1)
           of
             Undefined \<Rightarrow> Undefined
           | Returns u d' \<Rightarrow> Returns u d'
           | Throws d' \<Rightarrow>
               (case to_prev_chunk cs (outer d') (end_iterator d') of
                  None \<Rightarrow> Undefined
                | Some e' \<Rightarrow>
                    let e'' = e'\<lparr>inner_pointer := inner_pointer e' - 1\<rparr>
                    in Throws (destroy (inner_pointer e'') (d'\<lparr>end_iterator := e''\<rparr>)))))"

text \<open>\<^verbatim>\<open>push_back\<close> (lines 910 to 917).\<close>

definition push_back :: "nat \<Rightarrow> 'a \<Rightarrow> 'a deque \<Rightarrow> (unit, 'a deque) outcome" where
  "push_back cs v d =
     (let d1 = construct (inner_pointer (end_iterator d)) v d;
          e = (end_iterator d1)\<lparr>inner_pointer := inner_pointer (end_iterator d1) + 1\<rparr>;
          d2 = d1\<lparr>end_iterator := e\<rparr>
      in if inner_pointer e = chunk_end e then handle_chunk_end cs d2 else Returns () d2)"

text \<open>\<^verbatim>\<open>pop_back\<close> (lines 951 to 954).\<close>

definition pop_back :: "nat \<Rightarrow> 'a deque \<Rightarrow> (unit, 'a deque) outcome" where
  "pop_back cs d =
     (case it_decr cs (outer d) (end_iterator d) of
        None \<Rightarrow> Undefined
      | Some e \<Rightarrow> Returns () (destroy (inner_pointer e) (d\<lparr>end_iterator := e\<rparr>)))"

text \<open>\<^verbatim>\<open>pop_front\<close> (lines 1208 to 1211).\<close>

definition pop_front :: "nat \<Rightarrow> 'a deque \<Rightarrow> (unit, 'a deque) outcome" where
  "pop_front cs d =
     (let d1 = destroy (inner_pointer (begin_iterator d)) d in
      case it_incr cs (outer d1) (begin_iterator d1) of
        None \<Rightarrow> Undefined
      | Some b \<Rightarrow> Returns () (d1\<lparr>begin_iterator := b\<rparr>))"

section \<open>Growth at the left end\<close>

text \<open>
  The loop \<^verbatim>\<open>while (p < fill_end) { *p = allocate(...); ++p; }\<close> of \<^verbatim>\<open>reallocate_begin\<close>
  (lines 1009 to 1020) is \<open>alloc_fill\<close> again. The two branches that complete the new
  array (lines 1002 to 1023):
\<close>

definition realloc_begin_fill :: "nat \<Rightarrow> int \<Rightarrow> int list \<Rightarrow> int \<Rightarrow> int \<Rightarrow> int \<Rightarrow> 'a deque
                                  \<Rightarrow> (int list, 'a deque) outcome" where
  "realloc_begin_fill cs eic N1 missing_end new_begin_chunk new_end_chunk d0 =
     (let needed = missing_end - new_begin_chunk;
          num_free_chunks = end_chunk d0 - eic
      in
      if needed \<le> num_free_chunks then
        (let half = cdiv (num_free_chunks - needed) 2;
             remain = eic + needed + half
         in case copy_backward (outer d0) eic remain N1 missing_end of
              None \<Rightarrow> Undefined
            | Some (N2, bc) \<Rightarrow>
                (case copy_range (outer d0) remain (end_chunk d0) N2 new_end_chunk of
                   None \<Rightarrow> Undefined
                 | Some (N3, ec) \<Rightarrow>
                     Returns N3 (d0\<lparr>begin_chunk := bc, end_chunk := ec\<rparr>)))
      else
        (case copy_backward (outer d0) eic (end_chunk d0) N1 missing_end of
           None \<Rightarrow> Undefined
         | Some (N2, fill_end) \<Rightarrow>
             (case alloc_fill cs N2 new_begin_chunk fill_end [] d0 of
                Undefined \<Rightarrow> Undefined
              | Throws d1 \<Rightarrow> Throws d1
              | Returns N3 d1 \<Rightarrow>
                  Returns N3 (d1\<lparr>begin_chunk := new_begin_chunk,
                                 end_chunk := new_end_chunk\<rparr>))))"

text \<open>\<^verbatim>\<open>reallocate_begin\<close> (lines 970 to 1033).\<close>

definition reallocate_begin :: "nat \<Rightarrow> nat \<Rightarrow> int \<Rightarrow> int \<Rightarrow> 'a deque \<Rightarrow> (unit, 'a deque) outcome" where
  "reallocate_begin cs k bic eic d =
     (let num_elements = it_diff cs (end_iterator d) (begin_iterator d);
          active = eic - bic + int k
      in if active < 0 then Undefined
      else
      let new_num_chunks = nat active * 3 in
      case allocate_map (new_num_chunks + 2) d of
        None \<Rightarrow> Throws d
      | Some (N0, d0) \<Rightarrow>
          let new_data = 1;
              new_begin_chunk = new_data + active;
              new_end_chunk = new_begin_chunk + active
          in
          case copy_backward (outer d0) (begin_chunk d0) eic N0 new_end_chunk of
            None \<Rightarrow> Undefined
          | Some (N1, missing_end) \<Rightarrow>
              (case realloc_begin_fill cs eic N1 missing_end new_begin_chunk new_end_chunk d0 of
                 Undefined \<Rightarrow> Undefined
               | Throws d1 \<Rightarrow> Throws d1
               | Returns N d1 \<Rightarrow>
                   (let b = (begin_iterator d1)\<lparr>outer_pointer := new_begin_chunk + int k\<rparr>
                    in case it_plus cs N b num_elements of
                         None \<Rightarrow> Undefined
                       | Some e \<Rightarrow>
                           Returns () (d1\<lparr>num_chunks := new_num_chunks,
                                          begin_iterator := b, end_iterator := e,
                                          outer := N, data := new_data\<rparr>))))"

text \<open>
  The loop of \<^verbatim>\<open>rearrange_begin\<close> (lines 1090 to 1097) that allocates chunks downwards
  from \<^verbatim>\<open>begin_chunk - 1\<close> to \<^verbatim>\<open>new_begin_chunk\<close>; \<open>p\<close> is always \<open>begin_chunk - 1\<close>.
\<close>

function grow_begin_chunk :: "nat \<Rightarrow> int \<Rightarrow> 'a deque \<Rightarrow> (unit, 'a deque) outcome" where
  "grow_begin_chunk cs stop d =
     (if begin_chunk d - 1 < stop then Returns () d
      else (case allocate_chunk cs d of
              None \<Rightarrow> Throws d
            | Some (c, d1) \<Rightarrow>
                (case store_slot (outer d1) (begin_chunk d1 - 1) c of
                   None \<Rightarrow> Undefined
                 | Some M \<Rightarrow>
                     grow_begin_chunk cs stop
                       (d1\<lparr>outer := M, begin_chunk := begin_chunk d1 - 1\<rparr>))))"
  by pat_completeness auto
termination
  by (relation "measure (\<lambda>(cs, stop, d). nat (begin_chunk d - stop))")
     (auto simp: allocate_chunk_def split: if_splits)

declare grow_begin_chunk.simps [simp del]

text \<open>
  The block of \<^verbatim>\<open>rearrange_begin\<close> guarded by \<^verbatim>\<open>end_chunk < new_end_iterator_chunk\<close>
  (lines 1056 to 1102). Its two \<^verbatim>\<open>std::swap_ranges\<close> calls run over
  \<^verbatim>\<open>std::reverse_iterator<T**>\<close>; the result is read back with \<^verbatim>\<open>.base() + 1\<close>.
\<close>

definition coalesce_begin :: "nat \<Rightarrow> int \<Rightarrow> int \<Rightarrow> int \<Rightarrow> int \<Rightarrow> int \<Rightarrow> 'a deque
                              \<Rightarrow> (bool, 'a deque) outcome" where
  "coalesce_begin cs bic eic new_begin_chunk new_begin_iterator_chunk new_end_iterator_chunk d1 =
     (case
        (if new_begin_iterator_chunk \<le> end_chunk d1
         then Some (outer d1, eic)
         else (case swap_ranges_rev (outer d1) (end_chunk d1 - 1) (eic - 1)
                      (new_begin_iterator_chunk - 1) of
                 None \<Rightarrow> None
               | Some (M, base) \<Rightarrow> Some (M, base + 1)))
      of None \<Rightarrow> Undefined
      | Some (M2, fill_pos) \<Rightarrow>
          let src_end = bic + (if new_begin_iterator_chunk \<le> end_chunk d1
                               then end_chunk d1 - new_begin_iterator_chunk
                               else 0)
          in
          (case swap_ranges_rev M2 (src_end - 1) (begin_chunk d1 - 1) fill_pos of
             None \<Rightarrow> Undefined
           | Some (M3, base) \<Rightarrow>
               let d2 = d1\<lparr>outer := M3, begin_chunk := base + 1,
                           end_chunk := new_end_iterator_chunk\<rparr>;
                   balanced = (new_begin_chunk - 1 \<le> begin_chunk d2)
               in
               (case grow_begin_chunk cs new_begin_chunk d2 of
                  Undefined \<Rightarrow> Undefined
                | Throws d3 \<Rightarrow> Throws d3
                | Returns _ d3 \<Rightarrow> Returns balanced d3)))"

text \<open>\<^verbatim>\<open>rearrange_begin\<close> (lines 1048 to 1113).\<close>

definition rearrange_begin :: "nat \<Rightarrow> nat \<Rightarrow> int \<Rightarrow> int \<Rightarrow> 'a deque \<Rightarrow> (unit, 'a deque) outcome" where
  "rearrange_begin cs k bic eic d =
     (let num_elements = it_diff cs (end_iterator d) (begin_iterator d);
          active = eic - bic + int k;
          new_begin_chunk = data d + (int (num_chunks d) - active) div 2;
          new_begin_iterator_chunk = new_begin_chunk + int k
      in if active < 0 \<or> int (num_chunks d) < active then Undefined
      else
      case swap_ranges (outer d) bic eic new_begin_iterator_chunk of
        None \<Rightarrow> Undefined
      | Some (M1, new_end_iterator_chunk) \<Rightarrow>
          let b = (begin_iterator d)\<lparr>outer_pointer := new_begin_iterator_chunk\<rparr> in
          case it_plus cs M1 b num_elements of
            None \<Rightarrow> Undefined
          | Some e \<Rightarrow>
              let d1 = d\<lparr>outer := M1, begin_iterator := b, end_iterator := e\<rparr> in
              (case
                 (if end_chunk d1 < new_end_iterator_chunk
                  then coalesce_begin cs bic eic new_begin_chunk new_begin_iterator_chunk
                         new_end_iterator_chunk d1
                  else Returns False d1)
               of
                 Undefined \<Rightarrow> Undefined
               | Throws d3 \<Rightarrow> Throws d3
               | Returns balanced d3 \<Rightarrow>
                   if balanced then Returns () d3
                   else
                     (let left = new_begin_iterator_chunk - begin_chunk d3 - int k;
                          right = end_chunk d3 - new_end_iterator_chunk
                      in case center left right d3 of
                           None \<Rightarrow> Undefined
                         | Some d4 \<Rightarrow> Returns () d4)))"

text \<open>\<^verbatim>\<open>make_room_begin\<close> (lines 1121 to 1134).\<close>

definition make_room_begin :: "nat \<Rightarrow> nat \<Rightarrow> 'a deque \<Rightarrow> (unit, 'a deque) outcome" where
  "make_room_begin cs k d =
     (let begin_iterator_chunk = outer_pointer (begin_iterator d);
          eic = outer_pointer (end_iterator d) + 1;
          active = eic - begin_iterator_chunk + int k
      in if active < 0 then Undefined
         else if nat active \<le> num_chunks d div 3
         then rearrange_begin cs k begin_iterator_chunk eic d
         else reallocate_begin cs k begin_iterator_chunk eic d)"

section \<open>Push at the left end\<close>

text \<open>
  \<^verbatim>\<open>handle_chunk_begin\<close> (lines 1136 to 1158). Element constructors are taken not to
  throw, so the \<^verbatim>\<open>catch\<close> block around \<^verbatim>\<open>construct\<close> has no counterpart; a throw of the
  allocator leaves the function at once.
\<close>

definition handle_chunk_begin :: "nat \<Rightarrow> 'a \<Rightarrow> 'a deque \<Rightarrow> (unit, 'a deque) outcome" where
  "handle_chunk_begin cs v d =
     (case slot (outer d) (data d) of
        None \<Rightarrow> Undefined
      | Some first_chunk \<Rightarrow>
          (case
             (if inner_pointer (begin_iterator d) = first_chunk then
                (case make_room_begin cs 1 d of
                   Undefined \<Rightarrow> Undefined
                 | Throws d1 \<Rightarrow> Throws d1
                 | Returns _ d1 \<Rightarrow>
                     Returns ()
                       (d1\<lparr>begin_iterator := (begin_iterator d1)
                             \<lparr>outer_pointer := outer_pointer (begin_iterator d1) - 1\<rparr>\<rparr>))
              else if outer_pointer (begin_iterator d) = begin_chunk d then
                (case allocate_chunk cs d of
                   None \<Rightarrow> Throws d
                 | Some (memory, d1) \<Rightarrow>
                     (case store_slot (outer d1) (outer_pointer (begin_iterator d1) - 1) memory of
                        None \<Rightarrow> Undefined
                      | Some M \<Rightarrow>
                          Returns ()
                            (d1\<lparr>begin_iterator := (begin_iterator d1)
                                  \<lparr>outer_pointer := outer_pointer (begin_iterator d1) - 1\<rparr>,
                                outer := M, begin_chunk := begin_chunk d1 - 1\<rparr>)))
              else
                Returns ()
                  (d\<lparr>begin_iterator := (begin_iterator d)
                        \<lparr>outer_pointer := outer_pointer (begin_iterator d) - 1\<rparr>\<rparr>))
           of
             Undefined \<Rightarrow> Undefined
           | Throws d2 \<Rightarrow> Throws d2
           | Returns _ d2 \<Rightarrow>
               (case slot (outer d2) (outer_pointer (begin_iterator d2)) of
                  None \<Rightarrow> Undefined
                | Some c \<Rightarrow>
                    let b = (begin_iterator d2)
                              \<lparr>chunk_begin := c, inner_pointer := c + (int cs - 1),
                               chunk_end := c + (int cs - 1) + 1\<rparr>
                    in Returns () (construct (inner_pointer b) v (d2\<lparr>begin_iterator := b\<rparr>)))))"

text \<open>\<^verbatim>\<open>push_front\<close> (lines 1166 to 1173).\<close>

definition push_front :: "nat \<Rightarrow> 'a \<Rightarrow> 'a deque \<Rightarrow> (unit, 'a deque) outcome" where
  "push_front cs v d =
     (if chunk_begin (begin_iterator d) \<noteq> inner_pointer (begin_iterator d) then
        (let d1 = construct (inner_pointer (begin_iterator d) - 1) v d
         in Returns ()
              (d1\<lparr>begin_iterator := (begin_iterator d1)
                    \<lparr>inner_pointer := inner_pointer (begin_iterator d1) - 1\<rparr>\<rparr>))
      else handle_chunk_begin cs v d)"

section \<open>Running a sequence of operations\<close>

datatype 'a op = PushBack 'a | PushFront 'a | PopBack | PopFront

fun apply_op :: "nat \<Rightarrow> 'a op \<Rightarrow> 'a deque \<Rightarrow> (unit, 'a deque) outcome" where
  "apply_op cs (PushBack v) d = push_back cs v d"
| "apply_op cs (PushFront v) d = push_front cs v d"
| "apply_op cs PopBack d = pop_back cs d"
| "apply_op cs PopFront d = pop_front cs d"

fun run_ops :: "nat \<Rightarrow> 'a op list \<Rightarrow> 'a deque \<Rightarrow> (unit, 'a deque) outcome" where
  "run_ops cs [] d = Returns () d"
| "run_ops cs (x # xs) d =
     (case apply_op cs x d of
        Returns _ d' \<Rightarrow> run_ops cs xs d'
      | Throws d' \<Rightarrow> Throws d'
      | Undefined \<Rightarrow> Undefined)"

text \<open>The default constructor followed by a sequence of operations.\<close>

definition run_from_empty :: "nat \<Rightarrow> nat \<Rightarrow> 'a \<Rightarrow> 'a op list \<Rightarrow> (unit, 'a deque) outcome" where
  "run_from_empty cs pad dummy ops =
     (case deque_default cs pad dummy None of
        Returns _ d \<Rightarrow> run_ops cs ops d
      | Throws d \<Rightarrow> Throws d
      | Undefined \<Rightarrow> Undefined)"

section \<open>Observers and invariants\<close>

text \<open>\<^verbatim>\<open>size()\<close> is \<^verbatim>\<open>std::distance(begin_iterator, end_iterator)\<close>.\<close>

definition size_of :: "nat \<Rightarrow> 'a deque \<Rightarrow> int" where
  "size_of cs d = it_diff cs (end_iterator d) (begin_iterator d)"

text \<open>\<^verbatim>\<open>empty()\<close> compares the two cursors.\<close>

definition empty :: "'a deque \<Rightarrow> bool" where
  "empty d = (inner_pointer (begin_iterator d) = inner_pointer (end_iterator d)
              \<and> outer_pointer (begin_iterator d) = outer_pointer (end_iterator d))"

text \<open>
  \<^verbatim>\<open>operator[]\<close> dereferences \<^verbatim>\<open>begin_iterator.plus_positive(pos)\<close>: the cell read, \<open>None\<close>
  when the position is outside the map or the cell is raw.
\<close>

definition at_index :: "nat \<Rightarrow> 'a deque \<Rightarrow> nat \<Rightarrow> 'a option" where
  "at_index cs d i =
     (case it_plus cs (outer d) (begin_iterator d) (int i) of
        None \<Rightarrow> None
      | Some it \<Rightarrow> cells d (inner_pointer it))"

text \<open>The elements read through \<^verbatim>\<open>begin()\<close> .. \<^verbatim>\<open>end()\<close>.\<close>

definition contents :: "nat \<Rightarrow> 'a deque \<Rightarrow> 'a option list" where
  "contents cs d = map (at_index cs d) [0 ..< nat (size_of cs d)]"

text \<open>
  \<^verbatim>\<open>__is_valid\<close> (lines 51 to 84). \<^verbatim>\<open>CHUNK_SIZE<T>\<close> is used as a signed quantity
  throughout the source (line 1282 tests a remainder against zero), so the comparison of
  line 57 is a signed one. A cursor whose \<open>outer_pointer\<close> lies outside the array makes
  the validator read out of bounds; the model answers \<open>False\<close> there.
\<close>

definition null_range :: "int list \<Rightarrow> int \<Rightarrow> int \<Rightarrow> bool" where
  "null_range M lo hi = list_all (\<lambda>p. slot M p = Some 0) [lo .. hi - 1]"

definition nonnull_range :: "int list \<Rightarrow> int \<Rightarrow> int \<Rightarrow> bool" where
  "nonnull_range M lo hi = list_all (\<lambda>p. slot M p \<noteq> None \<and> slot M p \<noteq> Some 0) [lo .. hi - 1]"

definition cache_ok :: "nat \<Rightarrow> int list \<Rightarrow> iterator \<Rightarrow> bool" where
  "cache_ok cs M it =
     (case slot M (outer_pointer it) of
        None \<Rightarrow> False
      | Some c \<Rightarrow> chunk_begin it = c \<and> chunk_end it = c + int cs)"

definition is_valid :: "nat \<Rightarrow> 'a deque \<Rightarrow> bool" where
  "is_valid cs d =
     (\<not> (begin_chunk d < data d \<or> end_chunk d < begin_chunk d
          \<or> data d + int (num_chunks d) < end_chunk d)
      \<and> (case slot (outer d) (outer_pointer (end_iterator d)) of
            None \<Rightarrow> False
          | Some c \<Rightarrow> \<not> (c = 0 \<or> int cs \<le> c - inner_pointer (end_iterator d)))
      \<and> cache_ok cs (outer d) (begin_iterator d)
      \<and> cache_ok cs (outer d) (end_iterator d)
      \<and> null_range (outer d) (data d - 1) (begin_chunk d)
      \<and> null_range (outer d) (end_chunk d) (data d + (int (num_chunks d) + 1))
      \<and> nonnull_range (outer d) (begin_chunk d) (end_chunk d))"

text \<open>
  The invariants of section 3 of the specification, over the model. \<open>addr_at\<close> is the
  address of the position \<open>i\<close> places after a cursor.
\<close>

definition addr_at :: "nat \<Rightarrow> int list \<Rightarrow> iterator \<Rightarrow> int \<Rightarrow> int" where
  "addr_at cs M b i =
     (let off = i + (inner_pointer b - chunk_begin b)
      in M ! nat (outer_pointer b + off div int cs) + off mod int cs)"

definition in_chunk :: "nat \<Rightarrow> int list \<Rightarrow> iterator \<Rightarrow> bool" where
  "in_chunk cs M it =
     (chunk_begin it = M ! nat (outer_pointer it)
      \<and> chunk_end it = chunk_begin it + int cs
      \<and> chunk_begin it \<le> inner_pointer it \<and> inner_pointer it < chunk_end it)"

definition wf :: "nat \<Rightarrow> 'a deque \<Rightarrow> bool" where
  "wf cs d =
     (0 < cs \<and> data d = 1 \<and> length (outer d) = num_chunks d + 2
      \<and> data d \<le> begin_chunk d \<and> end_chunk d \<le> data d + int (num_chunks d)
      \<and> begin_chunk d \<le> outer_pointer (begin_iterator d)
      \<and> outer_pointer (begin_iterator d) \<le> outer_pointer (end_iterator d)
      \<and> outer_pointer (end_iterator d) < end_chunk d
      \<and> list_all (\<lambda>p. (outer d ! nat p \<noteq> 0) = (begin_chunk d \<le> p \<and> p < end_chunk d))
            [0 .. int (length (outer d)) - 1]
      \<and> in_chunk cs (outer d) (begin_iterator d)
      \<and> in_chunk cs (outer d) (end_iterator d)
      \<and> 0 \<le> size_of cs d
      \<and> list_all (\<lambda>p. list_all (\<lambda>q. p < q \<longrightarrow>
                          outer d ! nat p + int cs \<le> outer d ! nat q
                          \<or> outer d ! nat q + int cs \<le> outer d ! nat p)
                        [begin_chunk d .. end_chunk d - 1])
            [begin_chunk d .. end_chunk d - 1]
      \<and> list_all (\<lambda>p. 0 < outer d ! nat p \<and> outer d ! nat p + int cs \<le> next_addr d)
            [begin_chunk d .. end_chunk d - 1]
      \<and> live_chunks d = set (map (\<lambda>p. outer d ! nat p) [begin_chunk d .. end_chunk d - 1])
      \<and> (\<forall>a. (cells d a \<noteq> None)
               = (a \<in> set (map (addr_at cs (outer d) (begin_iterator d))
                               [0 .. size_of cs d - 1]))))"

text \<open>Offsets of the two cursors inside their chunks.\<close>

definition boff :: "'a deque \<Rightarrow> int" where
  "boff d = inner_pointer (begin_iterator d) - chunk_begin (begin_iterator d)"

definition eoff :: "'a deque \<Rightarrow> int" where
  "eoff d = inner_pointer (end_iterator d) - chunk_begin (end_iterator d)"


section \<open>Element ranges\<close>

text \<open>
  Modelled from the spec: \<^verbatim>\<open>src/common.h\<close> and \<^verbatim>\<open>deque_iterator.h\<close> are not among the
  sources. Section 6 lists \<^verbatim>\<open>destroy\<close> and \<^verbatim>\<open>uninitialized_copy\<close> as the usual range
  primitives over iterators; two iterators are equal when they designate the same slot
  of the same chunk. A loop that reads a raw cell, leaves the map, or steps away from its
  end iterator is undefined behaviour.
\<close>

definition it_eq :: "iterator \<Rightarrow> iterator \<Rightarrow> bool" where
  "it_eq a b = (outer_pointer a = outer_pointer b \<and> inner_pointer a = inner_pointer b)"

function destroy_range :: "nat \<Rightarrow> int list \<Rightarrow> iterator \<Rightarrow> iterator \<Rightarrow> (int \<Rightarrow> 'a option)
                            \<Rightarrow> (int \<Rightarrow> 'a option) option" where
  "destroy_range cs M f0 l0 h =
     (if it_eq f0 l0 then Some h
      else (case it_incr cs M f0 of
              None \<Rightarrow> None
            | Some f \<Rightarrow>
                if 0 \<le> it_diff cs l0 f \<and> it_diff cs l0 f < it_diff cs l0 f0
                then destroy_range cs M f l0 (h(inner_pointer f0 := None))
                else None))"
  by pat_completeness auto
termination
  by (relation "measure (\<lambda>(cs, M, f0, l0, h). nat (it_diff cs l0 f0))") auto

declare destroy_range.simps [simp del]

function uninitialized_copy :: "nat \<Rightarrow> int list \<Rightarrow> (int \<Rightarrow> 'a option) \<Rightarrow> iterator \<Rightarrow> iterator
                                 \<Rightarrow> int list \<Rightarrow> iterator \<Rightarrow> (int \<Rightarrow> 'a option)
                                 \<Rightarrow> ((int \<Rightarrow> 'a option) \<times> iterator) option" where
  "uninitialized_copy cs Ms hs f0 l0 Md dst ht =
     (if it_eq f0 l0 then Some (ht, dst)
      else (case (hs (inner_pointer f0), it_incr cs Ms f0, it_incr cs Md dst) of
              (Some v, Some f, Some t) \<Rightarrow>
                if 0 \<le> it_diff cs l0 f \<and> it_diff cs l0 f < it_diff cs l0 f0
                then uninitialized_copy cs Ms hs f l0 Md t (ht(inner_pointer dst := Some v))
                else None
            | _ \<Rightarrow> None))"
  by pat_completeness auto
termination
  by (relation "measure (\<lambda>(cs, Ms, hs, f0, l0, Md, dst, ht). nat (it_diff cs l0 f0))")
     auto

declare uninitialized_copy.simps [simp del]

section \<open>Copy construction and copy assignment\<close>

text \<open>
  The chunk allocation loop of \<^verbatim>\<open>copy_constructor_helper\<close> (lines 200 to 210): one chunk
  for every slot of \<open>[begin_chunk, end_chunk)\<close>, released again on a throw.
\<close>

function alloc_slots :: "nat \<Rightarrow> int \<Rightarrow> int \<Rightarrow> int list \<Rightarrow> 'a deque \<Rightarrow> (unit, 'a deque) outcome" where
  "alloc_slots cs cur stop acc d =
     (if stop \<le> cur then Returns () d
      else (case allocate_chunk cs d of
              None \<Rightarrow> Throws (release_chunks acc d)
            | Some (c, d1) \<Rightarrow>
                (case store_slot (outer d1) cur c of
                   None \<Rightarrow> Undefined
                 | Some M \<Rightarrow> alloc_slots cs (cur + 1) stop (acc @ [c]) (d1\<lparr>outer := M\<rparr>))))"
  by pat_completeness auto
termination
  by (relation "measure (\<lambda>(cs, cur, stop, acc, d). nat (stop - cur))") auto

declare alloc_slots.simps [simp del]

text \<open>
  \<^verbatim>\<open>deque(const deque& other)\<close> with \<^verbatim>\<open>copy_constructor_helper\<close> (lines 189 to 229). The new
  object has memory of its own and a copy of the other's allocator.
\<close>

definition copy_construct :: "nat \<Rightarrow> 'a deque \<Rightarrow> (unit, 'a deque) outcome" where
  "copy_construct cs other =
     (let d0 = (empty_store (budget other) :: 'a deque)\<lparr>num_chunks := num_chunks other\<rparr> in
      case allocate_map (num_chunks d0 + 2) d0 of
        None \<Rightarrow> Throws d0
      | Some (M, d1) \<Rightarrow>
          let d2 = d1\<lparr>outer := M, data := 1,
                      begin_chunk := 1 + (begin_chunk other - data other),
                      end_chunk := 1 + (end_chunk other - data other)\<rparr>
          in
          (case alloc_slots cs (begin_chunk d2) (end_chunk d2) [] d2 of
             Undefined \<Rightarrow> Undefined
           | Throws d3 \<Rightarrow> Throws d3
           | Returns _ d3 \<Rightarrow>
               (case (slot (outer d3) (begin_chunk d3),
                      slot (outer other) (outer_pointer (begin_iterator other))) of
                  (Some c, Some oc) \<Rightarrow>
                    (case mk_iterator cs (outer d3) (begin_chunk d3)
                            (c + (inner_pointer (begin_iterator other) - oc)) of
                       None \<Rightarrow> Undefined
                     | Some b \<Rightarrow>
                         (case uninitialized_copy cs (outer other) (cells other)
                                 (begin_iterator other) (end_iterator other)
                                 (outer d3) b (cells d3) of
                            None \<Rightarrow> Undefined
                          | Some (h, e) \<Rightarrow>
                              Returns () (d3\<lparr>begin_iterator := b, end_iterator := e,
                                             cells := h\<rparr>)))
                | _ \<Rightarrow> Undefined)))"

text \<open>
  \<^verbatim>\<open>operator=(const deque&)\<close> (lines 299 to 321). Objects live in a store indexed by
  their addresses, so that \<^verbatim>\<open>this == &other\<close> is a comparison of addresses; the value
  returned is the address of \<^verbatim>\<open>*this\<close>. The flag \<open>nothrow\<close> stands for
  \<^verbatim>\<open>is_nothrow_copy_constructible_v<T> && is_nothrow_destructible_v<T>\<close>. Distinct objects
  own distinct memory.
\<close>

definition assign_in_place :: "nat \<Rightarrow> 'a deque \<Rightarrow> 'a deque \<Rightarrow> 'a deque option" where
  "assign_in_place cs d other =
     (let total_capacity = (end_chunk d - begin_chunk d) * int cs;
          other_size = size_of cs other
      in case destroy_range cs (outer d) (begin_iterator d) (end_iterator d) (cells d) of
           None \<Rightarrow> None
         | Some h0 \<Rightarrow>
             (case slot (outer d) (begin_chunk d) of
                None \<Rightarrow> None
              | Some c \<Rightarrow>
                  (case mk_iterator cs (outer d) (begin_chunk d) c of
                     None \<Rightarrow> None
                   | Some b0 \<Rightarrow>
                       (case it_plus cs (outer d) b0 (cdiv (total_capacity - other_size) 2) of
                          None \<Rightarrow> None
                        | Some b \<Rightarrow>
                            (case uninitialized_copy cs (outer other) (cells other)
                                    (begin_iterator other) (end_iterator other)
                                    (outer d) b h0 of
                               None \<Rightarrow> None
                             | Some (h, e) \<Rightarrow>
                                 Some (d\<lparr>begin_iterator := b, end_iterator := e,
                                         cells := h\<rparr>))))))"

definition copy_assign :: "nat \<Rightarrow> bool \<Rightarrow> nat \<Rightarrow> nat \<Rightarrow> (nat \<Rightarrow> 'a deque)
                            \<Rightarrow> (nat, nat \<Rightarrow> 'a deque) outcome" where
  "copy_assign cs nothrow this other store =
     (if this = other then Returns this store
      else if nothrow
              \<and> size_of cs (store other)
                   \<le> (end_chunk (store this) - begin_chunk (store this)) * int cs
      then (case assign_in_place cs (store this) (store other) of
              None \<Rightarrow> Undefined
            | Some d \<Rightarrow> Returns this (store(this := d)))
      else (case copy_construct cs (store other) of
              Undefined \<Rightarrow> Undefined
            | Throws _ \<Rightarrow> Throws store
            | Returns _ tmp \<Rightarrow> Returns this (store(this := tmp))))"

section \<open>Concrete deques\<close>

text \<open>
  The deque of \<open>nat\<close> with chunk size 2 and padding 2 after the default constructor and
  one \<^verbatim>\<open>push_back(7)\<close>: a map of three slots between two sentinels, one chunk at
  address 1.
\<close>

definition one_element_deque :: "nat deque" where
  "one_element_deque =
     \<lparr>num_chunks = 3, begin_chunk = 2, end_chunk = 3, data = 1,
      begin_iterator = \<lparr>outer_pointer = 2, inner_pointer = 1, chunk_begin = 1, chunk_end = 3\<rparr>,
      end_iterator = \<lparr>outer_pointer = 2, inner_pointer = 2, chunk_begin = 1, chunk_end = 3\<rparr>,
      outer = [0, 0, 1, 0, 0], cells = (\<lambda>_. None)(1 := Some 7), live_chunks = {1},
      next_addr = 3, budget = None\<rparr>"




text \<open>
  Eight \<^verbatim>\<open>push_front\<close> calls and five \<^verbatim>\<open>pop_back\<close> calls: with chunk size 2 and padding 8
  the begin cursor walks from the middle of the map down to \<^verbatim>\<open>data\<close>, and three elements
  remain in the two leftmost chunks.
\<close>

definition walk_left :: "nat op list" where
  "walk_left = replicate 8 (PushFront 0) @ replicate 5 PopBack"

text \<open>
  The deque with chunk size 2 and padding 2 after \<^verbatim>\<open>push_back(1)\<close>, \<^verbatim>\<open>push_back(2)\<close> and
  \<^verbatim>\<open>pop_front()\<close>: its one element sits in the last cell of the first chunk and the end
  cursor at the head of the second chunk. Its allocator throws on the next request.
\<close>

definition straddling_deque :: "nat deque" where
  "straddling_deque =
     \<lparr>num_chunks = 3, begin_chunk = 2, end_chunk = 4, data = 1,
      begin_iterator = \<lparr>outer_pointer = 2, inner_pointer = 2, chunk_begin = 1, chunk_end = 3\<rparr>,
      end_iterator = \<lparr>outer_pointer = 3, inner_pointer = 3, chunk_begin = 3, chunk_end = 5\<rparr>,
      outer = [0, 0, 1, 3, 0], cells = (\<lambda>_. None)(2 := Some 2), live_chunks = {1, 3},
      next_addr = 5, budget = Some 0\<rparr>"

section \<open>Moving elements inside one deque\<close>











section \<open>Shrinking\<close>







section \<open>Construction: size of the map\<close>











section \<open>Layout of a well-formed deque\<close>


lemma wfD:
  assumes "wf cs d"
  shows "0 < cs" "data d = 1" "length (outer d) = num_chunks d + 2"
    "1 \<le> begin_chunk d" "end_chunk d \<le> 1 + int (num_chunks d)"
    "begin_chunk d \<le> outer_pointer (begin_iterator d)"
    "outer_pointer (begin_iterator d) \<le> outer_pointer (end_iterator d)"
    "outer_pointer (end_iterator d) < end_chunk d"
    "in_chunk cs (outer d) (begin_iterator d)"
    "in_chunk cs (outer d) (end_iterator d)"
    "0 \<le> size_of cs d"
  using assms by (auto simp: wf_def)

lemma wf_nonnull:
  assumes "wf cs d" "0 \<le> p" "p < int (length (outer d))"
  shows "(outer d ! nat p \<noteq> 0) = (begin_chunk d \<le> p \<and> p < end_chunk d)"
proof -
  from assms(1) have "list_all (\<lambda>p. (outer d ! nat p \<noteq> 0) = (begin_chunk d \<le> p \<and> p < end_chunk d))
            [0 .. int (length (outer d)) - 1]" unfolding wf_def by (elim conjE)
  then show ?thesis using assms(2,3) by (simp add: list_all_iff)
qed

lemma wf_disjoint_lt:
  assumes "wf cs d" "begin_chunk d \<le> p" "p < q" "q < end_chunk d"
  shows "outer d ! nat p + int cs \<le> outer d ! nat q \<or> outer d ! nat q + int cs \<le> outer d ! nat p"
proof -
  from assms(1) have "list_all (\<lambda>p. list_all (\<lambda>q. p < q \<longrightarrow>
                          outer d ! nat p + int cs \<le> outer d ! nat q
                          \<or> outer d ! nat q + int cs \<le> outer d ! nat p)
                        [begin_chunk d .. end_chunk d - 1])
            [begin_chunk d .. end_chunk d - 1]" unfolding wf_def by (elim conjE)
  then have "\<forall>p\<in>{begin_chunk d .. end_chunk d - 1}. \<forall>q\<in>{begin_chunk d .. end_chunk d - 1}.
     p < q \<longrightarrow> outer d ! nat p + int cs \<le> outer d ! nat q
                          \<or> outer d ! nat q + int cs \<le> outer d ! nat p"
    by (simp add: list_all_iff)
  moreover have "p \<in> {begin_chunk d .. end_chunk d - 1}" "q \<in> {begin_chunk d .. end_chunk d - 1}"
    using assms(2-4) by simp_all
  ultimately show ?thesis using assms(3) by blast
qed

lemma wf_disjoint:
  assumes "wf cs d" "begin_chunk d \<le> p" "p < end_chunk d" "begin_chunk d \<le> q" "q < end_chunk d"
    "p \<noteq> q"
  shows "outer d ! nat p + int cs \<le> outer d ! nat q \<or> outer d ! nat q + int cs \<le> outer d ! nat p"
proof (cases "p < q")
  case True
  with wf_disjoint_lt[OF assms(1), of p q] assms show ?thesis by simp
next
  case False
  then have "q < p" using assms by simp
  with wf_disjoint_lt[OF assms(1), of q p] assms show ?thesis by auto
qed

lemma wf_chunk_addr:
  assumes "wf cs d" "begin_chunk d \<le> p" "p < end_chunk d"
  shows "0 < outer d ! nat p \<and> outer d ! nat p + int cs \<le> next_addr d"
proof -
  from assms(1) have "list_all (\<lambda>p. 0 < outer d ! nat p \<and> outer d ! nat p + int cs \<le> next_addr d)
            [begin_chunk d .. end_chunk d - 1]" unfolding wf_def by (elim conjE)
  then show ?thesis using assms(2,3) by (simp add: list_all_iff)
qed

lemma wf_live:
  "wf cs d \<Longrightarrow> live_chunks d = (\<lambda>p. outer d ! nat p) ` {begin_chunk d ..< end_chunk d}"
  by (auto simp: wf_def)

lemma wf_cells:
  assumes "wf cs d"
  shows "(cells d a \<noteq> None)
     = (\<exists>i. 0 \<le> i \<and> i < size_of cs d \<and> a = addr_at cs (outer d) (begin_iterator d) i)"
proof -
  from assms have "\<forall>a. (cells d a \<noteq> None)
               = (a \<in> set (map (addr_at cs (outer d) (begin_iterator d))
                               [0 .. size_of cs d - 1]))" unfolding wf_def by (elim conjE)
  then have "(cells d a \<noteq> None)
               = (a \<in> set (map (addr_at cs (outer d) (begin_iterator d))
                               [0 .. size_of cs d - 1]))" by (rule spec)
  then show ?thesis by auto
qed

lemma int_div_less:
  assumes "0 < (c::int)" "a < k * c"
  shows "a div c < k"
proof -
  have "c * (a div c) \<le> a"
    using mult_div_mod_eq[of c a] pos_mod_sign[OF assms(1), of a] by linarith
  then have "c * (a div c) < c * k" using assms(2) by (simp add: mult.commute)
  then show ?thesis using assms(1) by (simp add: mult_less_cancel_left_pos)
qed

lemma int_div_ge:
  assumes "0 < (c::int)" "k * c \<le> a"
  shows "k \<le> a div c"
proof -
  have "a < c * (a div c) + c"
    using mult_div_mod_eq[of c a] pos_mod_bound[OF assms(1), of a] by linarith
  then have "c * k < c * (a div c + 1)" using assms(2) by (simp add: algebra_simps)
  then have "k < a div c + 1" using assms(1) by (simp add: mult_less_cancel_left_pos)
  then show ?thesis by simp
qed

lemma div_mod_determine:
  "(a::int) div c = b div c \<Longrightarrow> a mod c = b mod c \<Longrightarrow> a = b"
  by (metis div_mult_mod_eq)

lemma wf_offsets:
  assumes "wf cs d"
  shows "0 \<le> boff d" "boff d < int cs" "0 \<le> eoff d" "eoff d < int cs"
    "size_of cs d = (outer_pointer (end_iterator d) - outer_pointer (begin_iterator d)) * int cs
                     + eoff d - boff d"
  using wfD(9,10)[OF assms] by (auto simp: in_chunk_def boff_def eoff_def size_of_def it_diff_def)

lemma pos_chunk_bounds:
  assumes w: "wf cs d" and i: "0 \<le> i" "i < size_of cs d"
  shows "0 \<le> (i + boff d) div int cs"
    and "outer_pointer (begin_iterator d) + (i + boff d) div int cs \<le> outer_pointer (end_iterator d)"
proof -
  note o = wf_offsets[OF w] and cs = wfD(1)[OF w]
  show "0 \<le> (i + boff d) div int cs"
    using i o cs by (intro int_div_ge) simp_all
  let ?k = "outer_pointer (end_iterator d) - outer_pointer (begin_iterator d)"
  have "i + boff d < ?k * int cs + eoff d" using i o by simp
  also have "\<dots> < (?k + 1) * int cs" using o by (simp add: algebra_simps)
  finally have "(i + boff d) div int cs < ?k + 1"
    using cs by (intro int_div_less) simp_all
  then show "outer_pointer (begin_iterator d) + (i + boff d) div int cs \<le> outer_pointer (end_iterator d)"
    by simp
qed

lemma addr_at_inj:
  assumes w: "wf cs d" and i: "0 \<le> i" "i < size_of cs d" and j: "0 \<le> j" "j < size_of cs d"
    and e: "addr_at cs (outer d) (begin_iterator d) i = addr_at cs (outer d) (begin_iterator d) j"
  shows "i = j"
proof -
  note cs = wfD(1)[OF w]
  let ?b = "outer_pointer (begin_iterator d)"
  let ?p = "?b + (i + boff d) div int cs" and ?q = "?b + (j + boff d) div int cs"
  let ?r = "(i + boff d) mod int cs" and ?s = "(j + boff d) mod int cs"
  have r: "0 \<le> ?r" "?r < int cs" "0 \<le> ?s" "?s < int cs" using cs by simp_all
  have pb: "begin_chunk d \<le> ?p" "?p < end_chunk d" "begin_chunk d \<le> ?q" "?q < end_chunk d"
    using pos_chunk_bounds[OF w i] pos_chunk_bounds[OF w j] wfD(6,8)[OF w] by linarith+
  have e': "outer d ! nat ?p + ?r = outer d ! nat ?q + ?s"
    using e by (simp add: addr_at_def boff_def Let_def)
  have "?p = ?q"
  proof (rule ccontr)
    assume "?p \<noteq> ?q"
    from wf_disjoint[OF w pb this] e' r show False by linarith
  qed
  then have "(i + boff d) div int cs = (j + boff d) div int cs" and "?r = ?s"
    using e' by simp_all
  then have "i + boff d = j + boff d"
    by (rule div_mod_determine)
  then show ?thesis by simp
qed


lemma int_divmod_unique:
  assumes "0 < (c::int)" "0 \<le> r" "r < c"
  shows "(k * c + r) div c = k" "(k * c + r) mod c = r"
  using assms by (simp_all add: div_pos_pos_trivial)

lemma it_plus_addr:
  "it_plus cs M b i = Some it \<Longrightarrow> inner_pointer it = addr_at cs M b i"
  by (auto simp: it_plus_def addr_at_def slot_def Let_def split: if_splits)

lemma addr_at_last:
  assumes w: "wf cs d" and s: "0 < size_of cs d"
  shows "addr_at cs (outer d) (begin_iterator d) (size_of cs d - 1)
         = (if eoff d = 0
            then outer d ! nat (outer_pointer (end_iterator d) - 1) + int cs - 1
            else inner_pointer (end_iterator d) - 1)"
proof -
  note o = wf_offsets[OF w] and cs = wfD(1)[OF w]
  let ?k = "outer_pointer (end_iterator d) - outer_pointer (begin_iterator d)"
  have cb: "chunk_begin (end_iterator d) = outer d ! nat (outer_pointer (end_iterator d))"
    using wfD(10)[OF w] by (simp add: in_chunk_def)
  show ?thesis
  proof (cases "eoff d = 0")
    case True
    have off: "size_of cs d - 1 + boff d = (?k - 1) * int cs + (int cs - 1)"
      using o True by (simp add: algebra_simps)
    have "(size_of cs d - 1 + boff d) div int cs = ?k - 1"
      "(size_of cs d - 1 + boff d) mod int cs = int cs - 1"
      unfolding off using cs by (simp_all only: int_divmod_unique[of "int cs" "int cs - 1" "?k - 1"]) 
    then show ?thesis using True
      by (simp add: addr_at_def Let_def boff_def[symmetric])
  next
    case False
    have off: "size_of cs d - 1 + boff d = ?k * int cs + (eoff d - 1)"
      using o by (simp add: algebra_simps)
    have r: "0 \<le> eoff d - 1" "eoff d - 1 < int cs" using o False by simp_all
    have "(size_of cs d - 1 + boff d) div int cs = ?k"
      "(size_of cs d - 1 + boff d) mod int cs = eoff d - 1"
      unfolding off using cs r by (simp_all only: int_divmod_unique[of "int cs" "eoff d - 1" ?k])
    then show ?thesis using False cb
      by (simp add: addr_at_def Let_def boff_def[symmetric] eoff_def)
  qed
qed

section \<open>Removal at either end\<close>


lemma butlast_upt0: "butlast [0 ..< n] = [0 ..< n - 1]"
  by (cases n) simp_all

lemma pop_back_returns:
  assumes w: "wf cs d" and s: "0 < size_of cs d"
  shows "\<exists>e. it_decr cs (outer d) (end_iterator d) = Some e
           \<and> inner_pointer e = addr_at cs (outer d) (begin_iterator d) (size_of cs d - 1)
           \<and> it_diff cs e (begin_iterator d) = size_of cs d - 1"
proof -
  note o = wf_offsets[OF w] and cs = wfD(1)[OF w]
  note a = addr_at_last[OF w s]
  have ic: "in_chunk cs (outer d) (end_iterator d)" by (rule wfD(10)[OF w])
  show ?thesis
  proof (cases "eoff d = 0")
    case True
    then have eq: "inner_pointer (end_iterator d) = chunk_begin (end_iterator d)"
      by (simp add: eoff_def)
    have gt: "outer_pointer (begin_iterator d) < outer_pointer (end_iterator d)"
    proof (rule ccontr)
      assume "\<not> ?thesis"
      then have "outer_pointer (end_iterator d) = outer_pointer (begin_iterator d)"
        using wfD(7)[OF w] by simp
      then show False using s o True by simp
    qed
    have rng: "0 \<le> outer_pointer (end_iterator d) - 1"
      "outer_pointer (end_iterator d) - 1 < int (length (outer d))"
      using gt wfD(3,4,5,6,8)[OF w] by linarith+
    let ?c = "outer d ! nat (outer_pointer (end_iterator d) - 1)"
    let ?e = "\<lparr>outer_pointer = outer_pointer (end_iterator d) - 1,
               inner_pointer = ?c + int cs - 1, chunk_begin = ?c, chunk_end = ?c + int cs\<rparr>"
    have d: "it_decr cs (outer d) (end_iterator d) = Some ?e"
      using eq rng by (simp add: it_decr_def to_prev_chunk_def slot_def)
    have i: "inner_pointer ?e = addr_at cs (outer d) (begin_iterator d) (size_of cs d - 1)"
      using a True by simp
    have "it_diff cs ?e (begin_iterator d)
            = (outer_pointer (end_iterator d) - outer_pointer (begin_iterator d)) * int cs
              - boff d - 1"
      by (simp add: it_diff_def boff_def algebra_simps)
    then have f: "it_diff cs ?e (begin_iterator d) = size_of cs d - 1"
      using o(5) True by simp
    show ?thesis using d i f by blast
  next
    case False
    then have ne: "inner_pointer (end_iterator d) \<noteq> chunk_begin (end_iterator d)"
      by (simp add: eoff_def)
    show ?thesis
      using ne a False o
      by (simp add: it_decr_def it_diff_def boff_def eoff_def size_of_def)
  qed
qed

lemma at_index_cells_cong:
  assumes "outer d' = outer d" "begin_iterator d' = begin_iterator d"
    and "\<And>it. it_plus cs (outer d) (begin_iterator d) (int i) = Some it
            \<Longrightarrow> cells d' (inner_pointer it) = cells d (inner_pointer it)"
  shows "at_index cs d' i = at_index cs d i"
  using assms by (auto simp: at_index_def split: option.splits)

lemma pop_back_spec:
  assumes w: "wf cs d" and s: "0 < size_of cs d"
  shows "\<exists>d1. pop_back cs d = Returns () d1
           \<and> num_chunks d1 = num_chunks d \<and> data d1 = data d
           \<and> begin_chunk d1 = begin_chunk d \<and> end_chunk d1 = end_chunk d
           \<and> outer d1 = outer d \<and> live_chunks d1 = live_chunks d
           \<and> begin_iterator d1 = begin_iterator d
           \<and> size_of cs d1 = size_of cs d - 1
           \<and> cells d1 = (cells d)(addr_at cs (outer d) (begin_iterator d) (size_of cs d - 1) := None)
           \<and> contents cs d1 = butlast (contents cs d)"
proof -
  from pop_back_returns[OF w s] obtain e where
    e: "it_decr cs (outer d) (end_iterator d) = Some e"
    "inner_pointer e = addr_at cs (outer d) (begin_iterator d) (size_of cs d - 1)"
    "it_diff cs e (begin_iterator d) = size_of cs d - 1" by blast
  let ?d1 = "destroy (inner_pointer e) (d\<lparr>end_iterator := e\<rparr>)"
  have r: "pop_back cs d = Returns () ?d1" using e(1) by (simp add: pop_back_def)
  have sz: "size_of cs ?d1 = size_of cs d - 1"
    using e(3) by (simp add: size_of_def destroy_def)
  have ai: "at_index cs ?d1 i = at_index cs d i" if "i < nat (size_of cs d - 1)" for i
  proof (rule at_index_cells_cong)
    fix it assume p: "it_plus cs (outer d) (begin_iterator d) (int i) = Some it"
    have "addr_at cs (outer d) (begin_iterator d) (int i)
            \<noteq> addr_at cs (outer d) (begin_iterator d) (size_of cs d - 1)"
    proof
      assume q: "addr_at cs (outer d) (begin_iterator d) (int i)
            = addr_at cs (outer d) (begin_iterator d) (size_of cs d - 1)"
      have ii: "int i < size_of cs d - 1" using that by linarith
      from addr_at_inj[OF w _ _ _ _ q] ii s show False by simp
    qed
    then show "cells ?d1 (inner_pointer it) = cells d (inner_pointer it)"
      using it_plus_addr[OF p] e(2) by (simp add: destroy_def)
  qed (simp_all add: destroy_def)
  have "contents cs ?d1 = map (at_index cs d) [0 ..< nat (size_of cs d - 1)]"
    unfolding contents_def sz using ai by simp
  also have "\<dots> = map (at_index cs d) (butlast [0 ..< nat (size_of cs d)])"
    using s by (simp only: butlast_upt0) (simp add: nat_diff_distrib')
  also have "\<dots> = butlast (contents cs d)"
    by (simp only: contents_def map_butlast)
  finally have c: "contents cs ?d1 = butlast (contents cs d)" .
  show ?thesis
    using r sz c e(2) by (simp add: destroy_def)
qed


lemma addr_at_first:
  assumes w: "wf cs d"
  shows "addr_at cs (outer d) (begin_iterator d) 0 = inner_pointer (begin_iterator d)"
proof -
  note o = wf_offsets[OF w] and cs = wfD(1)[OF w]
  have "boff d div int cs = 0" "boff d mod int cs = boff d"
    using o by (simp_all add: div_pos_pos_trivial)
  moreover have "chunk_begin (begin_iterator d) = outer d ! nat (outer_pointer (begin_iterator d))"
    using wfD(9)[OF w] by (simp add: in_chunk_def)
  ultimately show ?thesis
    by (simp add: addr_at_def Let_def boff_def[symmetric]) (simp add: boff_def)
qed

lemma it_plus_shift:
  assumes "0 < cs"
    and "n + (inner_pointer a - chunk_begin a) = k * int cs + (m + (inner_pointer b - chunk_begin b))"
    and "outer_pointer b = outer_pointer a + k"
  shows "it_plus cs M a n = it_plus cs M b m"
proof -
  let ?x = "m + (inner_pointer b - chunk_begin b)"
  have "(k * int cs + ?x) div int cs = k + ?x div int cs"
    "(k * int cs + ?x) mod int cs = ?x mod int cs"
    using assms(1) by simp_all
  then show ?thesis
    unfolding it_plus_def Let_def assms(2) assms(3)
    by (simp add: add.assoc cong: option.case_cong)
qed

lemma it_incr_begin:
  assumes w: "wf cs d"
  shows "\<exists>b. it_incr cs (outer d) (begin_iterator d) = Some b
           \<and> it_diff cs (end_iterator d) b = size_of cs d - 1
           \<and> (\<forall>i. it_plus cs (outer d) b i = it_plus cs (outer d) (begin_iterator d) (i + 1))"
proof -
  note o = wf_offsets[OF w] and cs = wfD(1)[OF w]
  have ic: "chunk_end (begin_iterator d) = chunk_begin (begin_iterator d) + int cs"
    using wfD(9)[OF w] by (simp add: in_chunk_def)
  show ?thesis
  proof (cases "boff d + 1 = int cs")
    case True
    then have st: "inner_pointer (begin_iterator d) + 1 = chunk_end (begin_iterator d)"
      using ic by (simp add: boff_def)
    have rng: "0 \<le> outer_pointer (begin_iterator d) + 1"
      "outer_pointer (begin_iterator d) + 1 < int (length (outer d))"
      using wfD(3,4,5,6,7,8)[OF w] by linarith+
    let ?c = "outer d ! nat (outer_pointer (begin_iterator d) + 1)"
    let ?b = "\<lparr>outer_pointer = outer_pointer (begin_iterator d) + 1,
               inner_pointer = ?c, chunk_begin = ?c, chunk_end = ?c + int cs\<rparr>"
    have d: "it_incr cs (outer d) (begin_iterator d) = Some ?b"
      using st rng by (simp add: it_incr_def to_next_chunk_def slot_def)
    have "it_diff cs (end_iterator d) ?b
            = (outer_pointer (end_iterator d) - outer_pointer (begin_iterator d)) * int cs
              + eoff d - int cs"
      by (simp add: it_diff_def eoff_def algebra_simps)
    then have f: "it_diff cs (end_iterator d) ?b = size_of cs d - 1"
      using o(5) True by simp
    have p: "it_plus cs (outer d) ?b i = it_plus cs (outer d) (begin_iterator d) (i + 1)" for i
      by (rule it_plus_shift[OF cs, where k = "-1"]) (use True in \<open>simp_all add: boff_def\<close>)
    show ?thesis using d f p by blast
  next
    case False
    then have st: "inner_pointer (begin_iterator d) + 1 \<noteq> chunk_end (begin_iterator d)"
      using ic by (simp add: boff_def)
    let ?b = "(begin_iterator d)\<lparr>inner_pointer := inner_pointer (begin_iterator d) + 1\<rparr>"
    have d: "it_incr cs (outer d) (begin_iterator d) = Some ?b"
      using st by (simp add: it_incr_def)
    have f: "it_diff cs (end_iterator d) ?b = size_of cs d - 1"
      by (simp add: it_diff_def size_of_def)
    have p: "it_plus cs (outer d) ?b i = it_plus cs (outer d) (begin_iterator d) (i + 1)" for i
      by (simp add: it_plus_def Let_def algebra_simps)
    show ?thesis using d f p by blast
  qed
qed

lemma tl_map_upt0: "tl (map f [0 ..< n]) = map (\<lambda>i. f (Suc i)) [0 ..< n - 1]"
proof -
  have "tl (map f [0 ..< n]) = map f [Suc 0 ..< n]" by (simp add: map_tl[symmetric])
  also have "\<dots> = map f (map Suc [0 ..< n - 1])"
    by (cases n) (simp_all add: map_Suc_upt del: upt_Suc)
  finally show ?thesis by (simp add: comp_def)
qed

lemma pop_front_spec:
  assumes w: "wf cs d" and s: "0 < size_of cs d"
  shows "\<exists>d2. pop_front cs d = Returns () d2
           \<and> num_chunks d2 = num_chunks d \<and> data d2 = data d
           \<and> begin_chunk d2 = begin_chunk d \<and> end_chunk d2 = end_chunk d
           \<and> outer d2 = outer d \<and> live_chunks d2 = live_chunks d
           \<and> end_iterator d2 = end_iterator d
           \<and> size_of cs d2 = size_of cs d - 1
           \<and> cells d2 = (cells d)(addr_at cs (outer d) (begin_iterator d) 0 := None)
           \<and> contents cs d2 = tl (contents cs d)"
proof -
  from it_incr_begin[OF w] obtain b where
    b: "it_incr cs (outer d) (begin_iterator d) = Some b"
    "it_diff cs (end_iterator d) b = size_of cs d - 1"
    "\<And>i. it_plus cs (outer d) b i = it_plus cs (outer d) (begin_iterator d) (i + 1)" by blast
  let ?d2 = "(destroy (inner_pointer (begin_iterator d)) d)\<lparr>begin_iterator := b\<rparr>"
  have r: "pop_front cs d = Returns () ?d2"
    using b(1) by (simp add: pop_front_def destroy_def Let_def)
  have sz: "size_of cs ?d2 = size_of cs d - 1"
    using b(2) by (simp add: size_of_def destroy_def)
  have ai: "at_index cs ?d2 i = at_index cs d (Suc i)" if "i < nat (size_of cs d - 1)" for i
  proof -
    have ii: "int i + 1 < size_of cs d" using that by linarith
    show ?thesis
    proof (cases "it_plus cs (outer d) (begin_iterator d) (int i + 1)")
      case None
      then show ?thesis using b(3)[of "int i"]
        by (simp add: at_index_def destroy_def add.commute)
    next
      case (Some it)
      have "addr_at cs (outer d) (begin_iterator d) (int i + 1)
              \<noteq> addr_at cs (outer d) (begin_iterator d) 0"
      proof
        assume q: "addr_at cs (outer d) (begin_iterator d) (int i + 1)
              = addr_at cs (outer d) (begin_iterator d) 0"
        from addr_at_inj[OF w _ _ _ _ q] ii s show False by simp
      qed
      then have "inner_pointer it \<noteq> inner_pointer (begin_iterator d)"
        using it_plus_addr[OF Some] addr_at_first[OF w] by simp
      then show ?thesis using b(3)[of "int i"] Some
        by (simp add: at_index_def destroy_def add.commute)
    qed
  qed
  have "contents cs ?d2 = map (\<lambda>i. at_index cs d (Suc i)) [0 ..< nat (size_of cs d - 1)]"
    unfolding contents_def sz using ai by simp
  also have "\<dots> = tl (contents cs d)"
    using s by (simp only: contents_def tl_map_upt0) (simp add: nat_diff_distrib')
  finally have c: "contents cs ?d2 = tl (contents cs d)" .
  show ?thesis
    using r sz c addr_at_first[OF w] by (simp add: destroy_def)
qed


lemma one_element_deque_built:
  "(case deque_default 2 2 0 None of Returns _ d \<Rightarrow> push_back 2 7 d | _ \<Rightarrow> Undefined)
     = Returns () one_element_deque"
  by (simp add: one_element_deque_def deque_default_def fill_helper_def allocate_map_def
      empty_store_def spend_def fill_loop.simps allocate_chunk_def store_slot_def slot_def
      mk_iterator_def it_plus_def Let_def push_back_def construct_def numeral_eq_Suc)

lemma one_element_deque_wf: "wf 2 one_element_deque"
  unfolding wf_def
  by (simp add: one_element_deque_def in_chunk_def size_of_def it_diff_def addr_at_def upto.simps)

lemma one_element_deque_size: "size_of 2 one_element_deque = 1"
  by (simp add: one_element_deque_def size_of_def it_diff_def)

text \<open>
  Claim C6. On a well-formed, non-empty deque both \<^verbatim>\<open>pop_back\<close> and \<^verbatim>\<open>pop_front\<close> return.
  Each leaves \<open>num_chunks\<close>, \<open>data\<close>, \<open>begin_chunk\<close>, \<open>end_chunk\<close>, the map and the set
  of allocated chunks as they were, moves only its own cursor, lowers \<^verbatim>\<open>size()\<close> by one
  and turns exactly one cell, the last or the first live one, into raw storage, so that
  the contents lose their last or their first element.
\<close>

theorem pop_keeps_chunks:
  assumes "wf cs d" and "0 < size_of cs d"
  shows "\<exists>d1 d2.
           pop_back cs d = Returns () d1 \<and> pop_front cs d = Returns () d2
           \<and> num_chunks d1 = num_chunks d \<and> data d1 = data d
           \<and> begin_chunk d1 = begin_chunk d \<and> end_chunk d1 = end_chunk d
           \<and> outer d1 = outer d \<and> live_chunks d1 = live_chunks d
           \<and> begin_iterator d1 = begin_iterator d
           \<and> size_of cs d1 = size_of cs d - 1
           \<and> cells d1 = (cells d)(addr_at cs (outer d) (begin_iterator d) (size_of cs d - 1) := None)
           \<and> contents cs d1 = butlast (contents cs d)
           \<and> num_chunks d2 = num_chunks d \<and> data d2 = data d
           \<and> begin_chunk d2 = begin_chunk d \<and> end_chunk d2 = end_chunk d
           \<and> outer d2 = outer d \<and> live_chunks d2 = live_chunks d
           \<and> end_iterator d2 = end_iterator d
           \<and> size_of cs d2 = size_of cs d - 1
           \<and> cells d2 = (cells d)(addr_at cs (outer d) (begin_iterator d) 0 := None)
           \<and> contents cs d2 = tl (contents cs d)"
proof -
  from pop_back_spec[OF assms] obtain d1 where
    "pop_back cs d = Returns () d1
           \<and> num_chunks d1 = num_chunks d \<and> data d1 = data d
           \<and> begin_chunk d1 = begin_chunk d \<and> end_chunk d1 = end_chunk d
           \<and> outer d1 = outer d \<and> live_chunks d1 = live_chunks d
           \<and> begin_iterator d1 = begin_iterator d
           \<and> size_of cs d1 = size_of cs d - 1
           \<and> cells d1 = (cells d)(addr_at cs (outer d) (begin_iterator d) (size_of cs d - 1) := None)
           \<and> contents cs d1 = butlast (contents cs d)" ..
  moreover from pop_front_spec[OF assms] obtain d2 where
    "pop_front cs d = Returns () d2
           \<and> num_chunks d2 = num_chunks d \<and> data d2 = data d
           \<and> begin_chunk d2 = begin_chunk d \<and> end_chunk d2 = end_chunk d
           \<and> outer d2 = outer d \<and> live_chunks d2 = live_chunks d
           \<and> end_iterator d2 = end_iterator d
           \<and> size_of cs d2 = size_of cs d - 1
           \<and> cells d2 = (cells d)(addr_at cs (outer d) (begin_iterator d) 0 := None)
           \<and> contents cs d2 = tl (contents cs d)" ..
  ultimately show ?thesis by blast
qed

theorem pop_keeps_chunks_witness:
  "wf 2 one_element_deque \<and> 0 < size_of 2 one_element_deque
   \<and> map_option (\<lambda>d. (num_chunks d, data d, begin_chunk d, end_chunk d, outer d))
        (returned (pop_back 2 one_element_deque)) = Some (3, 1, 2, 3, [0, 0, 1, 0, 0])
   \<and> map_option (\<lambda>d. (num_chunks d, data d, begin_chunk d, end_chunk d, outer d))
        (returned (pop_front 2 one_element_deque)) = Some (3, 1, 2, 3, [0, 0, 1, 0, 0])
   \<and> map_option (contents 2) (returned (pop_back 2 one_element_deque)) = Some []
   \<and> map_option (contents 2) (returned (pop_front 2 one_element_deque)) = Some []"
proof -
  have s: "0 < size_of 2 one_element_deque" by (simp add: one_element_deque_size)
  have "at_index 2 one_element_deque 0 = Some 7"
    by (simp add: at_index_def it_plus_def slot_def one_element_deque_def)
  then have c: "contents 2 one_element_deque = [Some 7]"
    by (simp add: contents_def one_element_deque_size)
  from pop_keeps_chunks[OF one_element_deque_wf s] obtain d1 d2 where
    "pop_back 2 one_element_deque = Returns () d1" "pop_front 2 one_element_deque = Returns () d2"
    "num_chunks d1 = num_chunks one_element_deque" "data d1 = data one_element_deque"
    "begin_chunk d1 = begin_chunk one_element_deque" "end_chunk d1 = end_chunk one_element_deque"
    "outer d1 = outer one_element_deque"
    "contents 2 d1 = butlast (contents 2 one_element_deque)"
    "num_chunks d2 = num_chunks one_element_deque" "data d2 = data one_element_deque"
    "begin_chunk d2 = begin_chunk one_element_deque" "end_chunk d2 = end_chunk one_element_deque"
    "outer d2 = outer one_element_deque"
    "contents 2 d2 = tl (contents 2 one_element_deque)"
    by blast
  then show ?thesis
    using one_element_deque_wf s c by (simp add: returned_def one_element_deque_def)
qed

section \<open>Making room at the right end\<close>



lemma swap_ranges_rev_length:
  "swap_ranges_rev M f l t = Some (M', t') \<Longrightarrow> length M' = length M \<and> t' = t - (f - l)"
proof (induction M f l t rule: swap_ranges_rev.induct)
  case (1 M f l t)
  show ?case
  proof (cases "f = l")
    case True
    with "1.prems" show ?thesis by (subst (asm) swap_ranges_rev.simps) simp
  next
    case False
    from "1.prems" False have lt: "\<not> f < l"
      by (subst (asm) swap_ranges_rev.simps) (auto split: if_splits)
    from "1.prems" False lt obtain a b where
      s: "slot M (f - 1) = Some a" "slot M (t - 1) = Some b" and
      r: "swap_ranges_rev (M[nat (f - 1) := b, nat (t - 1) := a]) (f - 1) l (t - 1) = Some (M', t')"
      by (subst (asm) swap_ranges_rev.simps) (auto split: option.splits)
    from "1.IH"[OF False lt _ s(1) s(2) r] show ?thesis by simp
  qed
qed

















section \<open>Validity after a push at the left end\<close>

text \<open>
  Claim C1 fails on the code when \<^verbatim>\<open>CHUNK_PADDING\<close> is 8 (here with \<^verbatim>\<open>CHUNK_SIZE\<close> 2).
  After \<open>walk_left\<close> on a default-constructed deque the validator \<^verbatim>\<open>__is_valid\<close> still
  answers true. The next \<^verbatim>\<open>push_front\<close> runs \<^verbatim>\<open>make_room_begin(1)\<close> and
  \<^verbatim>\<open>rearrange_begin\<close>, whose \<^verbatim>\<open>std::swap_ranges\<close> over \<^verbatim>\<open>std::reverse_iterator\<close> moves the
  slots one place too low: the spare chunk stays in slot 1, slot 2 stays null and
  \<open>begin_chunk\<close> becomes 3. The operation returns, and \<^verbatim>\<open>__is_valid\<close> answers false: a
  slot of \<open>[data - 1, begin_chunk)\<close> is not null.
\<close>

theorem push_front_leaves_stray_chunk:
  "map_option (is_valid 2) (returned (run_from_empty 2 8 0 walk_left)) = Some True
   \<and> map_option (\<lambda>d. (is_valid 2 d, begin_chunk d, end_chunk d, outer d))
        (returned (run_from_empty 2 8 0 (walk_left @ [PushFront 9])))
       = Some (False, 3, 7, [0, 1, 0, 5, 3, 9, 7, 0, 0, 0, 0])"
  by code_simp

section \<open>Copy assignment to itself\<close>

text \<open>
  Claim C10. Copy-assigning a deque to itself returns the address of the deque and leaves
  the whole store as it was: every field of the deque, its map, its chunks and its
  elements. This holds for every store, whatever state the deque is in.
\<close>

theorem copy_assign_self:
  "copy_assign cs nothrow a a store = Returns a store"
  by (simp add: copy_assign_def)

section \<open>A throw inside shrink_to_fit\<close>








lemma straddling_deque_built:
  "(case run_from_empty 2 2 0 [PushBack 1, PushBack 2, PopFront] of
      Returns _ d \<Rightarrow> Some (d\<lparr>budget := Some 0\<rparr>) | _ \<Rightarrow> None) = Some straddling_deque"
  by (simp add: straddling_deque_def run_from_empty_def deque_default_def fill_helper_def
      allocate_map_def empty_store_def spend_def fill_loop.simps allocate_chunk_def
      store_slot_def slot_def mk_iterator_def it_plus_def Let_def push_back_def construct_def
      handle_chunk_end_def to_next_chunk_def pop_front_def destroy_def it_incr_def
      numeral_eq_Suc insert_commute fun_upd_twist)

lemma straddling_deque_wf: "wf 2 straddling_deque"
  unfolding wf_def
  by (simp add: straddling_deque_def in_chunk_def size_of_def it_diff_def addr_at_def upto.simps)





end
